theory Spec2Isabelle
  imports Complex_Main "HOL-Library.Sublist" "HOL-Library.AList"
    "HOL-Library.List_Lexorder" "HOL-Library.Char_ord"
begin

section \<open>Embedding of color\_rate.py\<close>

text \<open>
  Python dictionaries keep insertion order and have no duplicate keys; they are
  association lists here: \<open>d.items()\<close> is the list itself, \<open>k in d\<close> is membership in
  the keys, \<open>d[k]\<close> is \<open>map_of d k\<close>. A Python number is identified with its value, a real
  number. The scoring formula is stated in the exact arithmetic of these values. The
  aggregator adds confidences one detection at a time, and with floats the result of such
  a chain of additions depends on rounding and on the order; there the addition is a
  parameter \<open>add\<close>, standing for Python's \<open>+\<close> on the numbers of a document, of which
  nothing is assumed. Strings are \<open>char\<close> lists and \<open>str.lower\<close> maps the letters \<open>A\<close> to
  \<open>Z\<close> to \<open>a\<close> to \<open>z\<close>.
\<close>

subsection \<open>Strings and the palette\<close>

definition upper_to_lower :: "(char \<times> char) list" where
  "upper_to_lower = zip ''ABCDEFGHIJKLMNOPQRSTUVWXYZ'' ''abcdefghijklmnopqrstuvwxyz''"

definition lower_char :: "char \<Rightarrow> char" where
  "lower_char c = (case map_of upper_to_lower c of Some l \<Rightarrow> l | None \<Rightarrow> c)"

definition lower :: "string \<Rightarrow> string" where
  "lower s = map lower_char s"

type_synonym rgb = "int list"

definition color_to_rgb :: "(string \<times> rgb) list" where
  "color_to_rgb =
    [(''red'', [255, 0, 0]),
     (''green'', [0, 255, 0]),
     (''blue'', [0, 0, 255]),
     (''yellow'', [255, 255, 0]),
     (''cyan'', [0, 255, 255]),
     (''magenta'', [255, 0, 255]),
     (''orange'', [255, 165, 0]),
     (''purple'', [128, 0, 128]),
     (''pink'', [255, 192, 203]),
     (''brown'', [165, 42, 42]),
     (''gray'', [128, 128, 128]),
     (''grey'', [128, 128, 128]),
     (''black'', [0, 0, 0]),
     (''white'', [255, 255, 255]),
     (''lime'', [0, 255, 0]),
     (''navy'', [0, 0, 128]),
     (''teal'', [0, 128, 128]),
     (''olive'', [128, 128, 0]),
     (''maroon'', [128, 0, 0]),
     (''silver'', [192, 192, 192]),
     (''gold'', [255, 215, 0])]"

text \<open>\<open>color_to_rgb.get(name, [0, 0, 0])\<close>\<close>

definition get_rgb :: "string \<Rightarrow> rgb" where
  "get_rgb name = (case map_of color_to_rgb name of Some v \<Rightarrow> v | None \<Rightarrow> [0, 0, 0])"

text \<open>\<open>sum((a - b) ** 2 for a, b in zip(rgb1, rgb2))\<close>, an exact integer.\<close>

definition sum_sq_diff :: "rgb \<Rightarrow> rgb \<Rightarrow> int" where
  "sum_sq_diff rgb1 rgb2 = sum_list (map (\<lambda>(a, b). (a - b) ^ 2) (zip rgb1 rgb2))"

definition calculate_color_similarity :: "string \<Rightarrow> string \<Rightarrow> real" where
  "calculate_color_similarity color1 color2 =
     (let rgb1 = get_rgb (lower color1);
          rgb2 = get_rgb (lower color2);
          distance = sqrt (real_of_int (sum_sq_diff rgb1 rgb2));
          max_distance = sqrt (real_of_int (255 ^ 2 + 255 ^ 2 + 255 ^ 2));
          similarity = 1 - distance / max_distance
      in max 0 similarity)"

subsection \<open>The scorer\<close>

type_synonym dict = "(string \<times> string) list"

text \<open>
  The state of both loops of \<open>calculate_enhanced_similarity\<close>: \<open>matches\<close>,
  \<open>total_comparisons\<close> and \<open>color_similarities\<close>.
\<close>

type_synonym acc = "real \<times> real \<times> real list"

text \<open>One iteration of the loop over \<open>dict1.items()\<close>.\<close>

definition forward_step :: "dict \<Rightarrow> string \<times> string \<Rightarrow> acc \<Rightarrow> acc" where
  "forward_step dict2 item st =
     (case (item, st) of ((user_obj, user_color), (matches, total_comparisons, color_similarities)) \<Rightarrow>
        (let user_obj_lower = lower user_obj in
         case map_of dict2 user_obj_lower of
           Some json_color \<Rightarrow>
             if json_color = user_color
             then (matches + 1, total_comparisons + 1, color_similarities @ [1])
             else (let color_sim = calculate_color_similarity user_color json_color;
                       weighted_match = color_sim * 0.8
                   in (matches + weighted_match, total_comparisons + 1,
                       color_similarities @ [color_sim]))
         | None \<Rightarrow> (matches, total_comparisons + 1, color_similarities @ [0])))"

fun forward_pass :: "dict \<Rightarrow> dict \<Rightarrow> acc \<Rightarrow> acc" where
  "forward_pass dict2 [] st = st"
| "forward_pass dict2 (item # rest) st = forward_pass dict2 rest (forward_step dict2 item st)"

text \<open>One iteration of the loop over \<open>dict2.items()\<close>.\<close>

definition reverse_step :: "dict \<Rightarrow> string \<times> string \<Rightarrow> acc \<Rightarrow> acc" where
  "reverse_step dict1 item st =
     (case (item, st) of ((json_obj, json_color), (matches, total_comparisons, color_similarities)) \<Rightarrow>
        if json_obj \<notin> set (map (\<lambda>obj. lower obj) (map fst dict1))
        then (if json_color \<in> set (map snd dict1)
              then (matches + 0.3, total_comparisons + 0.3, color_similarities)
              else (matches, total_comparisons, color_similarities))
        else (matches, total_comparisons, color_similarities))"

fun reverse_pass :: "dict \<Rightarrow> dict \<Rightarrow> acc \<Rightarrow> acc" where
  "reverse_pass dict1 [] st = st"
| "reverse_pass dict1 (item # rest) st = reverse_pass dict1 rest (reverse_step dict1 item st)"

text \<open>The accumulators when the second loop has finished.\<close>

definition final_acc :: "dict \<Rightarrow> dict \<Rightarrow> acc" where
  "final_acc dict1 dict2 = reverse_pass dict1 dict2 (forward_pass dict2 dict1 (0, 0, []))"

definition calculate_enhanced_similarity :: "dict \<Rightarrow> dict \<Rightarrow> 'r \<Rightarrow> real \<times> real list" where
  "calculate_enhanced_similarity dict1 dict2 dict2_rgb =
     (if dict1 = [] \<or> dict2 = [] then (0, [])
      else (case final_acc dict1 dict2 of (matches, total_comparisons, color_similarities) \<Rightarrow>
              (if total_comparisons > 0 then matches / total_comparisons else 0,
               color_similarities)))"

subsection \<open>The aggregator: \<open>process_json_file\<close>\<close>

text \<open>
  What \<open>json.load\<close> returns. \<open>JNum\<close> carries integers and finite floats alike; an
  object is the list of its members in document order, with distinct names.
\<close>

datatype json =
    JNull
  | JBool bool
  | JNum real
  | JStr string
  | JArr "json list"
  | JObj "(string \<times> json) list"

text \<open>
  The exceptions that leave \<open>process_json_file\<close>. \<open>NonStringColour\<close> is not a Python
  exception: it marks a \<open>dominant_name\<close> that is a number, a boolean or null, which Python
  accepts as a dictionary key and which yields a reference mapping outside the string
  mappings the scorer is modelled on.
\<close>

datatype error = KeyError | TypeError | AttributeError | ValueError | OSError | NonStringColour

text \<open>
  The outcome of \<open>open(file_path)\<close> followed by \<open>json.load(f)\<close>. \<open>OtherFailure\<close> is any
  exception besides the two that the \<open>try\<close> block names, such as \<open>PermissionError\<close>.
\<close>

datatype load_result = FileNotFoundError | JSONDecodeError | OtherFailure | Loaded json

text \<open>Sequencing: an exception raised by the first computation skips the rest.\<close>

definition and_then :: "error + 'a \<Rightarrow> ('a \<Rightarrow> error + 'b) \<Rightarrow> error + 'b" where
  "and_then r f = (case r of Inl e \<Rightarrow> Inl e | Inr x \<Rightarrow> f x)"

text \<open>\<open>value[key]\<close> for a string \<open>key\<close>: only a dict can be subscripted by a string.\<close>

fun subscript :: "json \<Rightarrow> string \<Rightarrow> error + json" where
  "subscript (JObj members) key =
     (case map_of members key of Some v \<Rightarrow> Inr v | None \<Rightarrow> Inl KeyError)"
| "subscript _ key = Inl TypeError"

text \<open>\<open>for entry in value\<close>: a list yields its elements, a dict its keys, a string its characters.\<close>

fun iterate :: "json \<Rightarrow> error + json list" where
  "iterate (JArr xs) = Inr xs"
| "iterate (JObj members) = Inr (map (\<lambda>m. JStr (fst m)) members)"
| "iterate (JStr s) = Inr (map (\<lambda>c. JStr [c]) s)"
| "iterate _ = Inl TypeError"

text \<open>
  The four values bound at the top of the loop body: \<open>obj_class\<close> (already lower-cased),
  \<open>color_name\<close>, \<open>rgb_values\<close> and \<open>score\<close>.
\<close>

record detection =
  det_class :: string
  det_color :: string
  det_rgb :: json
  det_score :: real

text \<open>\<open>entry['class'].lower()\<close>: only a string has \<open>lower\<close>.\<close>

fun class_lower :: "json \<Rightarrow> error + string" where
  "class_lower (JStr s) = Inr (lower s)"
| "class_lower _ = Inl AttributeError"

text \<open>\<open>color_name\<close> as a dictionary key: a list or a dict is unhashable.\<close>

fun as_color_key :: "json \<Rightarrow> error + string" where
  "as_color_key (JStr s) = Inr s"
| "as_color_key (JArr xs) = Inl TypeError"
| "as_color_key (JObj members) = Inl TypeError"
| "as_color_key _ = Inl NonStringColour"

text \<open>\<open>score\<close> as the right operand of \<open>+=\<close> on a number: \<open>True\<close> counts as 1.\<close>

fun as_number :: "json \<Rightarrow> error + real" where
  "as_number (JNum r) = Inr r"
| "as_number (JBool b) = Inr (if b then 1 else 0)"
| "as_number _ = Inl TypeError"

definition read_entry :: "json \<Rightarrow> error + detection" where
  "read_entry entry =
     and_then (subscript entry ''class'') (\<lambda>cls.
     and_then (class_lower cls) (\<lambda>obj_class.
     and_then (subscript entry ''dominant_name'') (\<lambda>name.
     and_then (subscript entry ''dominant_rgb'') (\<lambda>rgb_values.
     and_then (subscript entry ''score'') (\<lambda>sc.
     and_then (as_color_key name) (\<lambda>color_name.
     and_then (as_number sc) (\<lambda>score.
       Inr \<lparr>det_class = obj_class, det_color = color_name,
            det_rgb = rgb_values, det_score = score\<rparr>)))))))"

text \<open>\<open>d[k]\<close> on a \<open>defaultdict\<close> whose factory returns \<open>dflt\<close>.\<close>

definition get_default :: "('k \<times> 'v) list \<Rightarrow> 'k \<Rightarrow> 'v \<Rightarrow> 'v" where
  "get_default d k dflt = (case map_of d k of Some v \<Rightarrow> v | None \<Rightarrow> dflt)"

text \<open>
  Python's \<open>+\<close> on two numbers, as a function of their values. On floats it returns the
  double nearest to the exact sum, so it is neither associative nor exact.
\<close>

type_synonym addition = "real \<Rightarrow> real \<Rightarrow> real"

text \<open>
  The state of the first loop: \<open>object_color_counts\<close> and \<open>object_rgb_data\<close>. Assigning to a
  key (\<open>AList.update\<close>) overwrites in place or appends, as a Python dict does. A colour
  not yet counted for the label starts from the integer 0 of \<open>defaultdict(int)\<close>, and
  \<open>+=\<close> adds the score to what is stored, in the order of the entries.
\<close>

type_synonym color_counts = "(string \<times> real) list"
type_synonym agg_state = "(string \<times> color_counts) list \<times> (string \<times> detection list) list"

definition accumulate :: "addition \<Rightarrow> detection \<Rightarrow> agg_state \<Rightarrow> agg_state" where
  "accumulate add d st =
     (case st of (object_color_counts, object_rgb_data) \<Rightarrow>
        (let obj_class = det_class d;
             color_name = det_color d;
             object_rgb_data' =
               AList.update obj_class (get_default object_rgb_data obj_class [] @ [d])
                 object_rgb_data;
             counts = get_default object_color_counts obj_class [];
             counts' = AList.update color_name (add (get_default counts color_name 0) (det_score d)) counts
         in (AList.update obj_class counts' object_color_counts, object_rgb_data')))"

fun entries_loop :: "addition \<Rightarrow> json list \<Rightarrow> agg_state \<Rightarrow> error + agg_state" where
  "entries_loop add [] st = Inr st"
| "entries_loop add (entry # rest) st =
     and_then (read_entry entry) (\<lambda>d. entries_loop add rest (accumulate add d st))"

text \<open>\<open>max(xs, key=f)\<close>: the first of the maximal elements; \<open>ValueError\<close> on an empty sequence.\<close>

fun max_from :: "('a \<Rightarrow> real) \<Rightarrow> 'a \<Rightarrow> 'a list \<Rightarrow> 'a" where
  "max_from f best [] = best"
| "max_from f best (x # xs) = (if f best < f x then max_from f x xs else max_from f best xs)"

definition max_by :: "('a \<Rightarrow> real) \<Rightarrow> 'a list \<Rightarrow> error + 'a" where
  "max_by f xs = (case xs of [] \<Rightarrow> Inl ValueError | x # rest \<Rightarrow> Inr (max_from f x rest))"

type_synonym rgb_dict = "(string \<times> json) list"

text \<open>One iteration of the loop over \<open>object_color_counts.items()\<close>.\<close>

definition pick_step ::
  "(string \<times> detection list) list \<Rightarrow> string \<times> color_counts \<Rightarrow> dict \<times> rgb_dict \<Rightarrow> error + dict \<times> rgb_dict" where
  "pick_step object_rgb_data item out =
     (case (item, out) of ((obj_class, color_counts), (json_object_colors, json_object_rgb)) \<Rightarrow>
        if color_counts \<noteq> [] then
          and_then (max_by snd color_counts) (\<lambda>most_common.
          and_then (max_by det_score (get_default object_rgb_data obj_class [])) (\<lambda>most_common_entry.
            Inr (AList.update obj_class (fst most_common) json_object_colors,
                 AList.update obj_class (det_rgb most_common_entry) json_object_rgb)))
        else Inr out)"

fun pick_loop ::
  "(string \<times> detection list) list \<Rightarrow> (string \<times> color_counts) list \<Rightarrow> dict \<times> rgb_dict \<Rightarrow> error + dict \<times> rgb_dict" where
  "pick_loop object_rgb_data [] out = Inr out"
| "pick_loop object_rgb_data (item # rest) out =
     and_then (pick_step object_rgb_data item out) (\<lambda>out'. pick_loop object_rgb_data rest out')"

definition process_json_file :: "addition \<Rightarrow> load_result \<Rightarrow> error + dict \<times> rgb_dict" where
  "process_json_file add file =
     (case file of
        FileNotFoundError \<Rightarrow> Inr ([], [])
      | JSONDecodeError \<Rightarrow> Inr ([], [])
      | OtherFailure \<Rightarrow> Inl OSError
      | Loaded json_data \<Rightarrow>
          and_then (subscript json_data ''entries'') (\<lambda>entries.
          and_then (iterate entries) (\<lambda>items.
          and_then (entries_loop add items ([], [])) (\<lambda>st.
            pick_loop (snd st) (fst st) ([], [])))))"

subsection \<open>The driver: \<open>calculate_similarity_scores_dict\<close>\<close>

text \<open>\<open>s.replace(old, '')\<close> for a non-empty \<open>old\<close>: every occurrence, left to right.\<close>

function remove_all :: "string \<Rightarrow> string \<Rightarrow> string" where
  "remove_all old [] = []"
| "remove_all old (c # cs) =
     (if old \<noteq> [] \<and> prefix old (c # cs) then remove_all old (drop (length old) (c # cs))
      else c # remove_all old cs)"
  by pat_completeness auto
termination
  by (relation "measure (\<lambda>(old, s). length s)") auto

text \<open>
  The directory is given by what the driver sees of it: \<open>None\<close> when it does not exist,
  otherwise the names matching \<open>*.colors.json\<close>, each with the outcome of loading it.
  The loop runs over the names in sorted order and assigns \<open>similarity_scores_dict[file_key]\<close>.
\<close>

type_synonym scores = "(string \<times> real) list"

definition file_step ::
  "addition \<Rightarrow> dict \<Rightarrow> string \<times> load_result \<Rightarrow> scores \<Rightarrow> error + scores" where
  "file_step add user_dict file similarity_scores_dict =
     (let file_key = remove_all ''.json'' (fst file) in
      and_then (process_json_file add (snd file)) (\<lambda>(json_object_colors, json_object_rgb).
        if json_object_colors = [] then Inr (AList.update file_key 0 similarity_scores_dict)
        else Inr (AList.update file_key
                    (fst (calculate_enhanced_similarity user_dict json_object_colors json_object_rgb))
                    similarity_scores_dict)))"

fun files_loop ::
  "addition \<Rightarrow> dict \<Rightarrow> (string \<times> load_result) list \<Rightarrow> scores \<Rightarrow> error + scores" where
  "files_loop add user_dict [] similarity_scores_dict = Inr similarity_scores_dict"
| "files_loop add user_dict (file # rest) similarity_scores_dict =
     and_then (file_step add user_dict file similarity_scores_dict)
       (\<lambda>similarity_scores_dict'. files_loop add user_dict rest similarity_scores_dict')"

definition calculate_similarity_scores_dict ::
  "addition \<Rightarrow> dict \<Rightarrow> (string \<times> load_result) list option \<Rightarrow> error + scores" where
  "calculate_similarity_scores_dict add user_dict object_colors_dir =
     (case object_colors_dir of
        None \<Rightarrow> Inr []
      | Some json_files \<Rightarrow>
          if json_files = [] then Inr []
          else files_loop add user_dict (sort_key fst json_files) [])"

subsection \<open>Vocabulary for the statements about the scorer\<close>

definition acc_matches :: "acc \<Rightarrow> real" where
  "acc_matches st = fst st"

definition acc_total :: "acc \<Rightarrow> real" where
  "acc_total st = fst (snd st)"

definition acc_sims :: "acc \<Rightarrow> real list" where
  "acc_sims st = snd (snd st)"

text \<open>What one user entry appends to \<open>color_similarities\<close> and adds to \<open>matches\<close>.\<close>

definition entry_similarity :: "dict \<Rightarrow> string \<times> string \<Rightarrow> real" where
  "entry_similarity dict2 item =
     (case map_of dict2 (lower (fst item)) of
        Some json_color \<Rightarrow>
          if json_color = snd item then 1 else calculate_color_similarity (snd item) json_color
      | None \<Rightarrow> 0)"

definition entry_credit :: "dict \<Rightarrow> string \<times> string \<Rightarrow> real" where
  "entry_credit dict2 item =
     (case map_of dict2 (lower (fst item)) of
        Some json_color \<Rightarrow>
          if json_color = snd item then 1
          else calculate_color_similarity (snd item) json_color * 0.8
      | None \<Rightarrow> 0)"

text \<open>A reference entry that takes the 0.3 bonus of the second loop.\<close>

definition qualifies :: "dict \<Rightarrow> string \<times> string \<Rightarrow> bool" where
  "qualifies dict1 item \<longleftrightarrow>
     fst item \<notin> set (map (\<lambda>obj. lower obj) (map fst dict1)) \<and> snd item \<in> set (map snd dict1)"

subsection \<open>Vocabulary for the statements about the aggregator and the driver\<close>

text \<open>
  The reference source format of the external interface: an object whose member
  \<open>entries\<close> is a list of objects, each with a textual \<open>class\<close>, a textual
  \<open>dominant_name\<close>, a \<open>dominant_rgb\<close> of three integers from 0 to 255 and a non-negative
  \<open>score\<close>. A loaded document that is not of this form is malformed.
\<close>

fun is_channel :: "json \<Rightarrow> bool" where
  "is_channel (JNum x) \<longleftrightarrow> 0 \<le> x \<and> x \<le> 255 \<and> real_of_int \<lfloor>x\<rfloor> = x"
| "is_channel _ \<longleftrightarrow> False"

fun is_rgb_triple :: "json \<Rightarrow> bool" where
  "is_rgb_triple (JArr xs) \<longleftrightarrow> length xs = 3 \<and> list_all is_channel xs"
| "is_rgb_triple _ \<longleftrightarrow> False"

fun is_text :: "json option \<Rightarrow> bool" where
  "is_text (Some (JStr s)) \<longleftrightarrow> True"
| "is_text _ \<longleftrightarrow> False"

fun is_confidence :: "json option \<Rightarrow> bool" where
  "is_confidence (Some (JNum x)) \<longleftrightarrow> 0 \<le> x"
| "is_confidence _ \<longleftrightarrow> False"

fun well_formed_entry :: "json \<Rightarrow> bool" where
  "well_formed_entry (JObj members) \<longleftrightarrow>
     is_text (map_of members ''class'') \<and> is_text (map_of members ''dominant_name'') \<and>
     (case map_of members ''dominant_rgb'' of Some v \<Rightarrow> is_rgb_triple v | None \<Rightarrow> False) \<and>
     is_confidence (map_of members ''score'')"
| "well_formed_entry _ \<longleftrightarrow> False"

fun well_formed_document :: "json \<Rightarrow> bool" where
  "well_formed_document (JObj members) \<longleftrightarrow>
     (case map_of members ''entries'' of
        Some (JArr entries) \<Rightarrow> list_all well_formed_entry entries
      | _ \<Rightarrow> False)"
| "well_formed_document _ \<longleftrightarrow> False"








section \<open>The colour helper\<close>

lemma sum_sq_diff_sym: "sum_sq_diff xs ys = sum_sq_diff ys xs"
  unfolding sum_sq_diff_def
proof (induction xs arbitrary: ys)
  case Nil show ?case by simp
next
  case (Cons x xs)
  show ?case
  proof (cases ys)
    case Nil then show ?thesis by simp
  next
    case (Cons y ys')
    then show ?thesis using Cons.IH [of ys'] by (simp add: power2_commute)
  qed
qed

lemma sum_sq_diff_nonneg: "0 \<le> sum_sq_diff xs ys"
  unfolding sum_sq_diff_def by (rule sum_list_nonneg) auto

lemma sum_sq_diff_same: "sum_sq_diff xs xs = 0"
  unfolding sum_sq_diff_def by (induction xs) simp_all

lemma sim_nonneg: "0 \<le> calculate_color_similarity a b"
  by (simp add: calculate_color_similarity_def Let_def)

lemma sim_le_one: "calculate_color_similarity a b \<le> 1"
  by (simp add: calculate_color_similarity_def Let_def sum_sq_diff_nonneg)

lemma sim_same_lower: "lower a = lower b \<Longrightarrow> calculate_color_similarity a b = 1"
  by (simp add: calculate_color_similarity_def Let_def sum_sq_diff_same)

lemma get_rgb_unknown: "name \<notin> set (map fst color_to_rgb) \<Longrightarrow> get_rgb name = [0, 0, 0]"
proof -
  assume "name \<notin> set (map fst color_to_rgb)"
  then have "map_of color_to_rgb name = None" by (simp add: map_of_eq_None_iff)
  then show ?thesis by (simp add: get_rgb_def)
qed

lemma get_rgb_black: "get_rgb (lower ''black'') = [0, 0, 0]"
  by (simp add: get_rgb_def color_to_rgb_def lower_def lower_char_def upper_to_lower_def)

text \<open>
  C9: the colour similarity is symmetric: for every pair of colour names \<open>a\<close> and \<open>b\<close>,
  \<open>calculate_color_similarity a b\<close> equals \<open>calculate_color_similarity b a\<close>.
\<close>

theorem color_similarity_symmetric:
  "calculate_color_similarity a b = calculate_color_similarity b a"
  by (simp add: calculate_color_similarity_def sum_sq_diff_sym [of "get_rgb (lower a)"])

text \<open>
  C8: a colour name whose lower-cased form is not a key of the palette is treated as RGB
  (0, 0, 0): its similarity to any name \<open>b\<close> is that of \<open>black\<close> to \<open>b\<close>, and the
  similarity of two such names is 1.
\<close>

theorem unknown_name_is_black:
  assumes "lower u \<notin> set (map fst color_to_rgb)"
  shows "calculate_color_similarity u b = calculate_color_similarity ''black'' b \<and>
         (lower b \<notin> set (map fst color_to_rgb) \<longrightarrow> calculate_color_similarity u b = 1)"
  using get_rgb_unknown [OF assms] get_rgb_unknown [of "lower b"] get_rgb_black
  by (auto simp: calculate_color_similarity_def sum_sq_diff_def)

text \<open>The theorem at the unknown names \<open>Foo\<close> and \<open>bar\<close>.\<close>

theorem unknown_name_is_black_witness:
  "lower ''Foo'' \<notin> set (map fst color_to_rgb) \<and>
   calculate_color_similarity ''Foo'' ''white'' = calculate_color_similarity ''black'' ''white'' \<and>
   lower ''bar'' \<notin> set (map fst color_to_rgb) \<and> calculate_color_similarity ''Foo'' ''bar'' = 1"
proof -
  have h: "lower ''Foo'' \<notin> set (map fst color_to_rgb)"
    by (simp add: color_to_rgb_def lower_def lower_char_def upper_to_lower_def)
  have h2: "lower ''bar'' \<notin> set (map fst color_to_rgb)"
    by (simp add: color_to_rgb_def lower_def lower_char_def upper_to_lower_def)
  show ?thesis
    using unknown_name_is_black [OF h, of "''white''"] unknown_name_is_black [OF h, of "''bar''"] h h2
    by simp
qed

section \<open>The scorer\<close>

subsection \<open>Both loops in closed form\<close>

lemma forward_step_eq:
  "forward_step dict2 item (m, t, s) =
     (m + entry_credit dict2 item, t + 1, s @ [entry_similarity dict2 item])"
  by (cases item) (simp add: forward_step_def entry_credit_def entry_similarity_def Let_def
        split: option.splits)

lemma forward_pass_eq:
  "forward_pass dict2 xs (m, t, s) =
     (m + sum_list (map (entry_credit dict2) xs), t + real (length xs),
      s @ map (entry_similarity dict2) xs)"
  by (induction xs arbitrary: m t s) (simp_all add: forward_step_eq algebra_simps)

lemma reverse_step_eq:
  "reverse_step dict1 item (m, t, s) =
     (if qualifies dict1 item then (m + 0.3, t + 0.3, s) else (m, t, s))"
  by (cases item) (simp add: reverse_step_def qualifies_def)

lemma reverse_pass_eq:
  "reverse_pass dict1 ys (m, t, s) =
     (m + 0.3 * real (length (filter (qualifies dict1) ys)),
      t + 0.3 * real (length (filter (qualifies dict1) ys)), s)"
  by (induction ys arbitrary: m t s) (simp_all add: reverse_step_eq algebra_simps)

lemma final_acc_eq:
  "final_acc dict1 dict2 =
     (sum_list (map (entry_credit dict2) dict1) + 0.3 * real (length (filter (qualifies dict1) dict2)),
      real (length dict1) + 0.3 * real (length (filter (qualifies dict1) dict2)),
      map (entry_similarity dict2) dict1)"
  by (simp add: final_acc_def forward_pass_eq reverse_pass_eq)

lemma entry_credit_nonneg: "0 \<le> entry_credit dict2 item"
  using sim_nonneg [of "snd item"]
  by (simp add: entry_credit_def split: option.splits)

lemma entry_credit_le_one: "entry_credit dict2 item \<le> 1"
proof (cases "map_of dict2 (lower (fst item))")
  case None
  then show ?thesis by (simp add: entry_credit_def)
next
  case (Some c)
  have "calculate_color_similarity (snd item) c * 0.8 \<le> 1"
    using sim_le_one [of "snd item" c] by simp
  with Some show ?thesis by (simp add: entry_credit_def)
qed

lemma sum_credit_nonneg: "0 \<le> sum_list (map (entry_credit dict2) xs)"
  by (rule sum_list_nonneg) (auto simp: entry_credit_nonneg)

lemma sum_credit_le_length: "sum_list (map (entry_credit dict2) xs) \<le> real (length xs)"
proof (induction xs)
  case Nil
  show ?case by simp
next
  case (Cons x xs)
  then show ?case using entry_credit_le_one [of dict2 x] by simp
qed

lemma score_eq:
  assumes "dict1 \<noteq> []" "dict2 \<noteq> []"
  shows "calculate_enhanced_similarity dict1 dict2 r =
           (acc_matches (final_acc dict1 dict2) / acc_total (final_acc dict1 dict2),
            map (entry_similarity dict2) dict1)"
proof -
  have "0 < real (length dict1)" using assms(1) by simp
  then have "0 < real (length dict1) + 0.3 * real (length (filter (qualifies dict1) dict2))"
    by (simp add: add_pos_nonneg)
  then show ?thesis using assms
    by (simp add: calculate_enhanced_similarity_def final_acc_eq acc_matches_def acc_total_def)
qed

lemma map_of_append_new:
  "k \<notin> fst ` set extra \<Longrightarrow> map_of (dict2 @ extra) k = map_of dict2 k"
  by (simp add: map_add_def map_of_eq_None_iff [THEN iffD2] split: option.splits)

lemma entry_unaffected:
  assumes "\<forall>e \<in> set extra. qualifies dict1 e" "item \<in> set dict1"
  shows "entry_credit (dict2 @ extra) item = entry_credit dict2 item"
    and "entry_similarity (dict2 @ extra) item = entry_similarity dict2 item"
proof -
  have "lower (fst item) \<notin> fst ` set extra"
  proof
    assume "lower (fst item) \<in> fst ` set extra"
    then obtain e where e: "e \<in> set extra" "fst e = lower (fst item)" by force
    from e(1) assms(1) have "qualifies dict1 e" by blast
    then have "fst e \<notin> set (map (\<lambda>obj. lower obj) (map fst dict1))"
      unfolding qualifies_def by blast
    then have "lower (fst item) \<notin> set (map (\<lambda>obj. lower obj) (map fst dict1))"
      unfolding e(2) .
    moreover have "lower (fst item) \<in> set (map (\<lambda>obj. lower obj) (map fst dict1))"
      using assms(2) by force
    ultimately show False by blast
  qed
  then have "map_of (dict2 @ extra) (lower (fst item)) = map_of dict2 (lower (fst item))"
    by (rule map_of_append_new)
  then show "entry_credit (dict2 @ extra) item = entry_credit dict2 item"
    and "entry_similarity (dict2 @ extra) item = entry_similarity dict2 item"
    by (simp_all add: entry_credit_def entry_similarity_def)
qed

lemma final_acc_extra:
  assumes "\<forall>e \<in> set extra. qualifies dict1 e"
  shows "final_acc dict1 (dict2 @ extra) =
           (acc_matches (final_acc dict1 dict2) + 0.3 * real (length extra),
            acc_total (final_acc dict1 dict2) + 0.3 * real (length extra),
            acc_sims (final_acc dict1 dict2))"
proof -
  have c: "map (entry_credit (dict2 @ extra)) dict1 = map (entry_credit dict2) dict1"
    using entry_unaffected(1) [OF assms] by simp
  have s: "map (entry_similarity (dict2 @ extra)) dict1 = map (entry_similarity dict2) dict1"
    using entry_unaffected(2) [OF assms] by simp
  have f: "filter (qualifies dict1) extra = extra" using assms by simp
  show ?thesis
    by (simp add: final_acc_eq c s f acc_matches_def acc_total_def acc_sims_def algebra_simps)
qed

lemma ratio_shift:
  fixes m t d :: real
  assumes "0 \<le> m" "m \<le> t" "0 < t" "0 \<le> d"
  shows "m / t \<le> (m + d) / (t + d)" and "(m + d) / (t + d) = m / t \<longleftrightarrow> d = 0 \<or> m = t"
proof -
  have td: "0 < t + d" using assms by simp
  have "d * m \<le> d * t"
    using assms by (simp add: mult_left_mono)
  then show "m / t \<le> (m + d) / (t + d)"
    using assms(3) td by (simp add: field_simps)
  have "(m + d) / (t + d) = m / t \<longleftrightarrow> (m + d) * t = m * (t + d)"
    using assms(3) td by (simp add: frac_eq_eq)
  also have "\<dots> \<longleftrightarrow> d * (t - m) = 0" by (simp add: algebra_simps)
  also have "\<dots> \<longleftrightarrow> d = 0 \<or> m = t" by auto
  finally show "(m + d) / (t + d) = m / t \<longleftrightarrow> d = 0 \<or> m = t" .
qed

lemma final_acc_bounds:
  assumes "dict1 \<noteq> []"
  shows "0 \<le> acc_matches (final_acc dict1 dict2)"
    and "acc_matches (final_acc dict1 dict2) \<le> acc_total (final_acc dict1 dict2)"
    and "0 < acc_total (final_acc dict1 dict2)"
proof -
  have n: "0 < real (length dict1)" using assms by simp
  have k: "0 \<le> 0.3 * real (length (filter (qualifies dict1) dict2))" by simp
  show "0 \<le> acc_matches (final_acc dict1 dict2)"
    using sum_credit_nonneg [of dict2 dict1] by (simp add: final_acc_eq acc_matches_def)
  show "acc_matches (final_acc dict1 dict2) \<le> acc_total (final_acc dict1 dict2)"
    using sum_credit_le_length [of dict2 dict1]
    by (simp add: final_acc_eq acc_matches_def acc_total_def)
  show "0 < acc_total (final_acc dict1 dict2)"
    using add_pos_nonneg [OF n k] by (simp add: final_acc_eq acc_total_def)
qed

subsection \<open>Range of the score\<close>

text \<open>
  C5: for every user mapping and reference mapping, the scalar returned by the scorer lies
  in the interval from 0 to 1, whether or not the second loop has added bonus contributions.
\<close>

theorem score_in_unit_interval:
  "0 \<le> fst (calculate_enhanced_similarity dict1 dict2 r) \<and>
   fst (calculate_enhanced_similarity dict1 dict2 r) \<le> 1"
proof (cases "dict1 = [] \<or> dict2 = []")
  case True
  then show ?thesis by (simp add: calculate_enhanced_similarity_def)
next
  case False
  define k where "k = 0.3 * real (length (filter (qualifies dict1) dict2))"
  define m where "m = sum_list (map (entry_credit dict2) dict1)"
  have k: "0 \<le> k" by (simp add: k_def)
  have m: "0 \<le> m" "m \<le> real (length dict1)"
    by (simp_all add: m_def sum_credit_nonneg sum_credit_le_length)
  have n: "0 < real (length dict1)" using False by simp
  have eq: "fst (calculate_enhanced_similarity dict1 dict2 r) = (m + k) / (real (length dict1) + k)"
    using False by (simp add: score_eq final_acc_eq acc_matches_def acc_total_def m_def k_def)
  have pos: "0 < real (length dict1) + k" by (rule add_pos_nonneg [OF n k])
  have "0 \<le> (m + k) / (real (length dict1) + k)" using k m n by simp
  moreover have "(m + k) / (real (length dict1) + k) \<le> 1"
    using pos m by (simp add: pos_divide_le_eq)
  ultimately show ?thesis by (simp add: eq)
qed

subsection \<open>The bonus of the second loop\<close>

text \<open>
  C1, as amended: for non-empty mappings, appending qualifying bonus entries to the
  reference adds 0.3 per entry to both \<open>matches\<close> and \<open>total_comparisons\<close> and leaves the
  per-entry list as it was; the score never decreases, and it stays the same exactly when
  no entry was added or \<open>matches\<close> already equalled \<open>total_comparisons\<close>.
\<close>

theorem reverse_bonus_effect:
  assumes "dict1 \<noteq> []" and "dict2 \<noteq> []" and "\<forall>e \<in> set extra. qualifies dict1 e"
  shows "final_acc dict1 (dict2 @ extra) =
           (acc_matches (final_acc dict1 dict2) + 0.3 * real (length extra),
            acc_total (final_acc dict1 dict2) + 0.3 * real (length extra),
            acc_sims (final_acc dict1 dict2)) \<and>
         snd (calculate_enhanced_similarity dict1 (dict2 @ extra) r) =
           snd (calculate_enhanced_similarity dict1 dict2 r) \<and>
         fst (calculate_enhanced_similarity dict1 dict2 r) \<le>
           fst (calculate_enhanced_similarity dict1 (dict2 @ extra) r) \<and>
         (fst (calculate_enhanced_similarity dict1 (dict2 @ extra) r) =
            fst (calculate_enhanced_similarity dict1 dict2 r) \<longleftrightarrow>
          extra = [] \<or> acc_matches (final_acc dict1 dict2) = acc_total (final_acc dict1 dict2))"
proof -
  define m where "m = acc_matches (final_acc dict1 dict2)"
  define t where "t = acc_total (final_acc dict1 dict2)"
  define d where "d = 0.3 * real (length extra)"
  have fa: "final_acc dict1 (dict2 @ extra) = (m + d, t + d, acc_sims (final_acc dict1 dict2))"
    unfolding m_def t_def d_def by (rule final_acc_extra [OF assms(3)])
  have b: "0 \<le> m" "m \<le> t" "0 < t" "0 \<le> d"
    using final_acc_bounds [OF assms(1), of dict2] by (simp_all add: m_def t_def d_def)
  have ne: "dict2 @ extra \<noteq> []" using assms(2) by simp
  have s0: "fst (calculate_enhanced_similarity dict1 dict2 r) = m / t"
    by (simp add: score_eq [OF assms(1,2)] m_def t_def)
  have s1: "fst (calculate_enhanced_similarity dict1 (dict2 @ extra) r) = (m + d) / (t + d)"
    by (simp add: score_eq [OF assms(1) ne] fa acc_matches_def acc_total_def)
  have l: "snd (calculate_enhanced_similarity dict1 (dict2 @ extra) r) =
           snd (calculate_enhanced_similarity dict1 dict2 r)"
    using entry_unaffected(2) [OF assms(3)]
    by (simp add: score_eq [OF assms(1) ne] score_eq [OF assms(1,2)])
  have dz: "d = 0 \<longleftrightarrow> extra = []" by (simp add: d_def)
  show ?thesis
    using fa l ratio_shift [OF b] by (simp add: s0 s1 dz m_def t_def d_def)
qed

text \<open>The theorem at one user entry and one added reference entry.\<close>

theorem reverse_bonus_effect_witness:
  "qualifies [(''a'', ''red'')] (''b'', ''red'') \<and>
   fst (calculate_enhanced_similarity [(''a'', ''red'')] [(''c'', ''blue'')] ([] :: rgb_dict))
     \<le> fst (calculate_enhanced_similarity [(''a'', ''red'')] ([(''c'', ''blue'')] @ [(''b'', ''red'')])
           ([] :: rgb_dict))"
proof -
  have q: "\<forall>e \<in> set [(''b'', ''red'')]. qualifies [(''a'', ''red'')] e"
    by (simp add: qualifies_def lower_def lower_char_def upper_to_lower_def)
  have n1: "[(''a'', ''red'')] \<noteq> ([] :: dict)" and n2: "[(''c'', ''blue'')] \<noteq> ([] :: dict)"
    by simp_all
  show ?thesis
    using reverse_bonus_effect [OF n1 n2 q, of "[] :: rgb_dict"] q by simp
qed

text \<open>
  The bonus does not cancel in the ratio: with \<open>{a: red}\<close> against \<open>{c: blue}\<close> the score is
  0, and with the qualifying entry \<open>b: red\<close> added it is 0.3 / 1.3.
\<close>

theorem reverse_bonus_counterexample:
  "qualifies [(''a'', ''red'')] (''b'', ''red'') \<and>
   fst (calculate_enhanced_similarity [(''a'', ''red'')] [(''c'', ''blue'')] ([] :: rgb_dict)) = 0 \<and>
   fst (calculate_enhanced_similarity [(''a'', ''red'')] [(''c'', ''blue''), (''b'', ''red'')]
          ([] :: rgb_dict)) = 3 / 13"
  by (simp add: calculate_enhanced_similarity_def final_acc_def forward_step_def reverse_step_def
        qualifies_def lower_def lower_char_def upper_to_lower_def)

subsection \<open>The per-entry list\<close>

text \<open>
  C2, as amended: when the reference mapping is not empty, the per-entry list has exactly
  as many elements as the user mapping, one per user entry in iteration order; when the
  reference mapping is empty the scorer returns 0 with the empty list, whatever the user
  mapping is.
\<close>

theorem similarity_list_shape:
  "(dict2 \<noteq> [] \<longrightarrow>
      snd (calculate_enhanced_similarity dict1 dict2 r) = map (entry_similarity dict2) dict1 \<and>
      length (snd (calculate_enhanced_similarity dict1 dict2 r)) = length dict1) \<and>
   (dict2 = [] \<longrightarrow> calculate_enhanced_similarity dict1 dict2 r = (0, []))"
proof (cases "dict1 = []")
  case True
  then show ?thesis by (simp add: calculate_enhanced_similarity_def)
next
  case False
  show ?thesis
  proof (cases "dict2 = []")
    case True
    then show ?thesis by (simp add: calculate_enhanced_similarity_def)
  next
    case d2: False
    show ?thesis using d2 by (simp add: score_eq [OF False d2])
  qed
qed

text \<open>The theorem at a two-entry user mapping, and at an empty reference.\<close>

theorem similarity_list_shape_witness:
  "[(''x'', ''red'')] \<noteq> ([] :: dict) \<and>
   snd (calculate_enhanced_similarity [(''x'', ''red''), (''y'', ''red'')] [(''x'', ''red'')] ([] :: rgb_dict))
     = [1, 0] \<and>
   calculate_enhanced_similarity [(''x'', ''red'')] [] ([] :: rgb_dict) = (0, [])"
  using similarity_list_shape [of "[(''x'', ''red'')]" "[(''x'', ''red''), (''y'', ''red'')]" "[] :: rgb_dict"]
    similarity_list_shape [of "[]" "[(''x'', ''red'')]" "[] :: rgb_dict"]
  by (simp add: entry_similarity_def lower_def lower_char_def upper_to_lower_def)

text \<open>
  For the user mapping \<open>{x: red}\<close> and the empty reference the guard at the top of the
  scorer returns the empty list, not a list of one zero.
\<close>

theorem missing_label_scenario_counterexample:
  "calculate_enhanced_similarity [(''x'', ''red'')] [] ([] :: rgb_dict) = (0, []) \<and>
   length (snd (calculate_enhanced_similarity [(''x'', ''red'')] [] ([] :: rgb_dict)))
     \<noteq> length [(''x'', ''red'')] \<and>
   snd (calculate_enhanced_similarity [(''x'', ''red'')] [] ([] :: rgb_dict)) \<noteq> [0]"
  by (simp add: calculate_enhanced_similarity_def)

subsection \<open>Colours that differ only in letter case\<close>

text \<open>
  C4, as amended: the exact-match test of the first loop is string equality. When the
  normalized user label is in the reference and the two colours are equal up to letter
  case, the entry adds 1 to \<open>total_comparisons\<close> and appends 1 to the per-entry list; it
  adds 1 to \<open>matches\<close> when the two colours are the same string and 0.8 when they are not.
\<close>

theorem case_variant_color_credit:
  assumes "map_of dict2 (lower user_obj) = Some json_color"
    and "lower json_color = lower user_color"
  shows "forward_step dict2 (user_obj, user_color) (matches, total_comparisons, color_similarities) =
           (matches + (if json_color = user_color then 1 else 0.8), total_comparisons + 1,
            color_similarities @ [1])"
  using assms sim_same_lower [of user_color json_color]
  by (simp add: forward_step_def)

text \<open>The theorem at the user entry \<open>A: Red\<close> against the reference \<open>{a: red}\<close>.\<close>

theorem case_variant_color_credit_witness:
  "map_of [(''a'', ''red'')] (lower ''A'') = Some ''red'' \<and> lower ''red'' = lower ''Red'' \<and>
   forward_step [(''a'', ''red'')] (''A'', ''Red'') (0, 0, []) = (0.8, 1, [1])"
proof -
  have h1: "map_of [(''a'', ''red'')] (lower ''A'') = Some ''red''"
    by (simp add: lower_def lower_char_def upper_to_lower_def)
  have h2: "lower ''red'' = lower ''Red''"
    by (simp add: lower_def lower_char_def upper_to_lower_def)
  show ?thesis
    using case_variant_color_credit [OF h1 h2, of 0 0 "[]"] h1 h2 by simp
qed

text \<open>
  \<open>Red\<close> against \<open>red\<close> is not an exact match: the entry takes the partial branch and
  adds 0.8 to \<open>matches\<close>, so the score is 0.8.
\<close>

theorem case_insensitive_exact_match_counterexample:
  "map_of [(''a'', ''red'')] (lower ''a'') = Some ''red'' \<and> lower ''red'' = lower ''Red'' \<and>
   forward_step [(''a'', ''red'')] (''a'', ''Red'') (0, 0, []) = (4 / 5, 1, [1]) \<and>
   forward_step [(''a'', ''red'')] (''a'', ''Red'') (0, 0, []) \<noteq> (1, 1, [1]) \<and>
   calculate_enhanced_similarity [(''a'', ''Red'')] [(''a'', ''red'')] ([] :: rgb_dict) = (4 / 5, [1])"
  by (simp add: calculate_enhanced_similarity_def final_acc_def forward_step_def reverse_step_def
        calculate_color_similarity_def get_rgb_def color_to_rgb_def sum_sq_diff_def
        lower_def lower_char_def upper_to_lower_def)

subsection \<open>The RGB argument\<close>

text \<open>
  C7: the result of the scorer does not depend on its third argument: for every user
  mapping and reference mapping and any two values passed as \<open>dict2_rgb\<close>, the score and
  the per-entry list are the same.
\<close>

theorem rgb_argument_ignored:
  "calculate_enhanced_similarity dict1 dict2 r1 = calculate_enhanced_similarity dict1 dict2 r2"
  by (simp add: calculate_enhanced_similarity_def)

subsection \<open>The final division\<close>

text \<open>
  C10: when both mappings are non-empty, \<open>total_comparisons\<close> after the first loop is at
  least the number of user entries and positive, it is still positive after the second
  loop, and the scorer returns the quotient \<open>matches / total_comparisons\<close>, never the
  fallback 0 of the final conditional.
\<close>

theorem denominator_positive:
  assumes "dict1 \<noteq> []" and "dict2 \<noteq> []"
  shows "real (length dict1) \<le> acc_total (forward_pass dict2 dict1 (0, 0, [])) \<and>
         0 < acc_total (forward_pass dict2 dict1 (0, 0, [])) \<and>
         0 < acc_total (final_acc dict1 dict2) \<and>
         calculate_enhanced_similarity dict1 dict2 r =
           (acc_matches (final_acc dict1 dict2) / acc_total (final_acc dict1 dict2),
            acc_sims (final_acc dict1 dict2))"
proof -
  have n: "0 < real (length dict1)" using assms(1) by simp
  have f: "acc_total (forward_pass dict2 dict1 (0, 0, [])) = real (length dict1)"
    by (simp add: forward_pass_eq acc_total_def)
  have s: "acc_sims (final_acc dict1 dict2) = map (entry_similarity dict2) dict1"
    by (simp add: final_acc_eq acc_sims_def)
  show ?thesis
    using n final_acc_bounds(3) [OF assms(1), of dict2]
    by (simp add: f s score_eq [OF assms])
qed

text \<open>The theorem at \<open>{a: red}\<close> against \<open>{a: red}\<close>.\<close>

theorem denominator_positive_witness:
  "[(''a'', ''red'')] \<noteq> ([] :: dict) \<and>
   0 < acc_total (final_acc [(''a'', ''red'')] [(''a'', ''red'')]) \<and>
   calculate_enhanced_similarity [(''a'', ''red'')] [(''a'', ''red'')] ([] :: rgb_dict) = (1, [1])"
proof -
  have h: "[(''a'', ''red'')] \<noteq> ([] :: dict)" by simp
  have v: "final_acc [(''a'', ''red'')] [(''a'', ''red'')] = (1, 1, [1])"
    by (simp add: final_acc_def forward_step_def reverse_step_def lower_def lower_char_def
          upper_to_lower_def)
  show ?thesis
    using denominator_positive [OF h h, of "[] :: rgb_dict"]
    by (simp add: v acc_total_def acc_matches_def acc_sims_def)
qed

section \<open>The driver and the sources it cannot load\<close>

lemma and_then_simps [simp]:
  "and_then (Inl e) f = Inl e" "and_then (Inr x) f = f x"
  by (simp_all add: and_then_def)

lemma file_step_unloadable:
  assumes "file = FileNotFoundError \<or> file = JSONDecodeError"
  shows "file_step add user_dict (name, file) sc = Inr (AList.update (remove_all ''.json'' name) 0 sc)"
  using assms by (auto simp: file_step_def process_json_file_def)

lemma files_loop_unloadable:
  assumes "\<forall>f \<in> set files. snd f = FileNotFoundError \<or> snd f = JSONDecodeError"
  shows "\<exists>sc'. files_loop add user_dict files sc = Inr sc' \<and>
           (\<forall>k. map_of sc' k =
              (if k \<in> (\<lambda>f. remove_all ''.json'' (fst f)) ` set files then Some 0 else map_of sc k))"
  using assms
proof (induction files arbitrary: sc)
  case Nil
  show ?case by simp
next
  case (Cons f files)
  obtain name content where f: "f = (name, content)" by (cases f)
  have st: "file_step add user_dict f sc = Inr (AList.update (remove_all ''.json'' name) 0 sc)"
    using Cons.prems unfolding f by (intro file_step_unloadable) simp
  from Cons.prems have "\<forall>f \<in> set files. snd f = FileNotFoundError \<or> snd f = JSONDecodeError"
    by simp
  from Cons.IH [OF this, of "AList.update (remove_all ''.json'' name) 0 sc"]
  obtain sc' where sc': "files_loop add user_dict files (AList.update (remove_all ''.json'' name) 0 sc) = Inr sc'"
    "\<forall>k. map_of sc' k =
       (if k \<in> (\<lambda>f. remove_all ''.json'' (fst f)) ` set files then Some 0
        else map_of (AList.update (remove_all ''.json'' name) 0 sc) k)"
    by blast
  have "files_loop add user_dict (f # files) sc = Inr sc'"
    using sc'(1) st by simp
  moreover have "\<forall>k. map_of sc' k =
      (if k \<in> (\<lambda>f. remove_all ''.json'' (fst f)) ` set (f # files) then Some 0 else map_of sc k)"
    using sc'(2) by (simp add: f update_conv')
  ultimately show ?case by blast
qed

text \<open>
  C3, as amended: a reference source that is missing (\<open>FileNotFoundError\<close>) or whose content
  is not valid JSON (\<open>JSONDecodeError\<close>) yields empty mappings from the aggregator, with no
  error, and the driver assigns that source the score 0 and goes on; a directory made of
  such sources yields a result in which every one of them has the score 0.
\<close>

theorem unloadable_source_scores_zero:
  assumes "\<forall>f \<in> set json_files. snd f = FileNotFoundError \<or> snd f = JSONDecodeError"
  shows "(\<forall>f \<in> set json_files.
            process_json_file add (snd f) = Inr ([], []) \<and>
            (\<forall>sc. file_step add user_dict f sc = Inr (AList.update (remove_all ''.json'' (fst f)) 0 sc))) \<and>
         (\<exists>result. calculate_similarity_scores_dict add user_dict (Some json_files) = Inr result \<and>
            (\<forall>f \<in> set json_files. map_of result (remove_all ''.json'' (fst f)) = Some 0))"
proof -
  have a: "\<forall>f \<in> set json_files.
            process_json_file add (snd f) = Inr ([], []) \<and>
            (\<forall>sc. file_step add user_dict f sc = Inr (AList.update (remove_all ''.json'' (fst f)) 0 sc))"
  proof
    fix f assume "f \<in> set json_files"
    with assms have b: "snd f = FileNotFoundError \<or> snd f = JSONDecodeError" by blast
    then have "process_json_file add (snd f) = Inr ([], [])"
      by (auto simp: process_json_file_def)
    moreover have "\<forall>sc. file_step add user_dict f sc = Inr (AList.update (remove_all ''.json'' (fst f)) 0 sc)"
      using file_step_unloadable [OF b, of add user_dict "fst f"] by simp
    ultimately show "process_json_file add (snd f) = Inr ([], []) \<and>
            (\<forall>sc. file_step add user_dict f sc = Inr (AList.update (remove_all ''.json'' (fst f)) 0 sc))"
      by blast
  qed
  have s: "\<forall>f \<in> set (sort_key fst json_files). snd f = FileNotFoundError \<or> snd f = JSONDecodeError"
    using assms by simp
  obtain sc' where sc': "files_loop add user_dict (sort_key fst json_files) [] = Inr sc'"
    "\<forall>k. map_of sc' k =
       (if k \<in> (\<lambda>f. remove_all ''.json'' (fst f)) ` set (sort_key fst json_files) then Some 0
        else map_of [] k)"
    using files_loop_unloadable [OF s, of add user_dict "[]"] by blast
  have "\<exists>result. calculate_similarity_scores_dict add user_dict (Some json_files) = Inr result \<and>
            (\<forall>f \<in> set json_files. map_of result (remove_all ''.json'' (fst f)) = Some 0)"
  proof (cases "json_files = []")
    case True
    then show ?thesis by (simp add: calculate_similarity_scores_dict_def)
  next
    case False
    then show ?thesis using sc' by (auto simp: calculate_similarity_scores_dict_def)
  qed
  with a show ?thesis by blast
qed

text \<open>The theorem at a directory holding one file that is not valid JSON.\<close>

theorem unloadable_source_scores_zero_witness:
  "process_json_file (+) JSONDecodeError = Inr ([], []) \<and>
   calculate_similarity_scores_dict (+) [(''lantern'', ''red'')]
     (Some [(''001.colors.json'', JSONDecodeError)]) = Inr [(''001.colors'', 0)]"
  using unloadable_source_scores_zero
      [of "[(''001.colors.json'', JSONDecodeError)]" "(+)" "[(''lantern'', ''red'')]"]
  by (simp add: calculate_similarity_scores_dict_def)

text \<open>
  A document that parses but is not of the reference format is not contained: on the
  empty object \<open>{}\<close> the subscript \<open>json_data['entries']\<close> raises \<open>KeyError\<close>, which
  leaves the aggregator and the driver.
\<close>

theorem malformed_document_counterexample:
  "\<not> well_formed_document (JObj []) \<and>
   process_json_file (+) (Loaded (JObj [])) = Inl KeyError \<and>
   calculate_similarity_scores_dict (+) [(''lantern'', ''red'')]
     (Some [(''001.colors.json'', Loaded (JObj []))]) = Inl KeyError"
  by (simp add: process_json_file_def calculate_similarity_scores_dict_def file_step_def)

section \<open>The aggregator\<close>

subsection \<open>The invariant of the first loop\<close>














lemma get_default_absent: "k \<notin> fst ` set d \<Longrightarrow> get_default d k dflt = dflt"
  by (simp add: get_default_def map_of_eq_None_iff [THEN iffD2])





subsection \<open>\<open>max\<close> returns the first of the maximal elements\<close>




subsection \<open>The second loop\<close>





subsection \<open>The winning colour\<close>



text \<open>
  The winner follows the sums as they are accumulated, not the exact sums. With an
  addition that rounds down to a multiple of one half, the two detections of \<open>blue\<close> with
  0.3 accumulate to 0 and the single \<open>red\<close> with 0.5 wins, although 0.3 + 0.3 exceeds 0.5.
\<close>

lemma aggregator_rounded_sums_example:
  "process_json_file (\<lambda>x y. real_of_int \<lfloor>(x + y) * 2\<rfloor> / 2) (Loaded (JObj [(''entries'', JArr
     [JObj [(''class'', JStr ''car''), (''dominant_name'', JStr ''blue''),
            (''dominant_rgb'', JArr [JNum 0, JNum 0, JNum 255]), (''score'', JNum 0.3)],
      JObj [(''class'', JStr ''car''), (''dominant_name'', JStr ''red''),
            (''dominant_rgb'', JArr [JNum 255, JNum 0, JNum 0]), (''score'', JNum 0.5)],
      JObj [(''class'', JStr ''car''), (''dominant_name'', JStr ''blue''),
            (''dominant_rgb'', JArr [JNum 0, JNum 0, JNum 250]), (''score'', JNum 0.3)]])]))
    = Inr ([(''car'', ''red'')], [(''car'', JArr [JNum 255, JNum 0, JNum 0])])"
  by (simp add: process_json_file_def read_entry_def accumulate_def get_default_def Let_def
        pick_step_def max_by_def lower_def lower_char_def upper_to_lower_def)

end
